theory Spec2Isabelle
  imports Main "HOL-Library.Word"
begin

unbundle bit_operations_syntax

section \<open>The client of client.go\<close>

text \<open>
  Go strings and byte slices are both sequences of bytes; they are modelled as
  \<open>string\<close> (a list of 8-bit characters).
\<close>

type_synonym bytes = string

definition libraryVersion :: string where
  "libraryVersion = ''0.0.1''"

definition userAgent :: string where
  "userAgent = ''go-merit-aktiva/'' @ libraryVersion"

definition mediaType :: string where
  "mediaType = ''application/json''"

definition charset :: string where
  "charset = ''utf-8''"

text \<open>The fields of \<open>url.URL\<close> that the package sets or reads.\<close>

record URL =
  Scheme :: string
  Host :: string
  Path :: string

definition BaseURL :: URL where
  "BaseURL = \<lparr>Scheme = ''https'', Host = ''aktiva.merit.ee'', Path = ''/api/v1/''\<rparr>"

text \<open>
  The struct \<open>Client\<close>. The HTTP client and the completion callback are given to
  \<open>Do\<close> as arguments below; the other fields are the ones of the source.
\<close>

record Client =
  c_debug :: bool
  c_baseURL :: URL
  c_apiID :: string
  c_apiKey :: string
  c_userAgent :: string
  c_mediaType :: string
  c_charset :: string
  c_disallowUnknownFields :: bool

definition Debug :: "Client \<Rightarrow> bool" where
  "Debug c = c_debug c"

definition SetDebug :: "bool \<Rightarrow> Client \<Rightarrow> Client" where
  "SetDebug d c = c\<lparr>c_debug := d\<rparr>"

definition APIID :: "Client \<Rightarrow> string" where
  "APIID c = c_apiID c"

definition SetAPIID :: "string \<Rightarrow> Client \<Rightarrow> Client" where
  "SetAPIID s c = c\<lparr>c_apiID := s\<rparr>"

definition APIKey :: "Client \<Rightarrow> string" where
  "APIKey c = c_apiKey c"

definition SetAPIKey :: "string \<Rightarrow> Client \<Rightarrow> Client" where
  "SetAPIKey s c = c\<lparr>c_apiKey := s\<rparr>"

definition GetBaseURL :: "Client \<Rightarrow> URL" where
  "GetBaseURL c = c_baseURL c"

definition SetBaseURL :: "URL \<Rightarrow> Client \<Rightarrow> Client" where
  "SetBaseURL u c = c\<lparr>c_baseURL := u\<rparr>"

definition SetMediaType :: "string \<Rightarrow> Client \<Rightarrow> Client" where
  "SetMediaType s c = c\<lparr>c_mediaType := s\<rparr>"

text \<open>The three getters below return the package constant, not the field.\<close>

definition MediaType :: "Client \<Rightarrow> string" where
  "MediaType c = mediaType"

definition SetCharset :: "string \<Rightarrow> Client \<Rightarrow> Client" where
  "SetCharset s c = c\<lparr>c_charset := s\<rparr>"

definition Charset :: "Client \<Rightarrow> string" where
  "Charset c = charset"

definition SetUserAgent :: "string \<Rightarrow> Client \<Rightarrow> Client" where
  "SetUserAgent s c = c\<lparr>c_userAgent := s\<rparr>"

definition UserAgent :: "Client \<Rightarrow> string" where
  "UserAgent c = userAgent"

definition SetDisallowUnknownFields :: "bool \<Rightarrow> Client \<Rightarrow> Client" where
  "SetDisallowUnknownFields b c = c\<lparr>c_disallowUnknownFields := b\<rparr>"

text \<open>\<open>NewClient\<close>: a zero-valued \<open>Client\<close> with the setters applied in the source's order.\<close>

definition zeroClient :: Client where
  "zeroClient = \<lparr>c_debug = False, c_baseURL = \<lparr>Scheme = [], Host = [], Path = []\<rparr>,
     c_apiID = [], c_apiKey = [], c_userAgent = [], c_mediaType = [], c_charset = [],
     c_disallowUnknownFields = False\<rparr>"

definition NewClient :: "string \<Rightarrow> string \<Rightarrow> Client" where
  "NewClient apiID apiKey =
     SetCharset charset (SetMediaType mediaType (SetUserAgent userAgent
       (SetDebug False (SetBaseURL BaseURL (SetAPIKey apiKey (SetAPIID apiID zeroClient))))))"

section \<open>JSON as \<open>encoding/json\<close> reads it\<close>

text \<open>
  The package decodes response bodies with Go's \<open>encoding/json\<close>. Its scanner is
  modelled on bytes: a value is read from the front of the input and the rest is returned;
  \<open>NeedMore\<close> says that the input ended inside a value, \<open>Invalid\<close> that a byte
  cannot continue a JSON text. Numbers keep their literal text. Strings are unquoted as
  \<open>unquote\<close> does: escapes are decoded, \<open>\u\<close> escapes and surrogate pairs become
  UTF-8, and bytes that are not well-formed UTF-8 become U+FFFD.
\<close>

datatype json = JNull | JBool bool | JNumber string | JString string
  | JArray "json list" | JObject "(string \<times> json) list"

datatype 'a scan = Done 'a string | NeedMore | Invalid

definition isSpace :: "char \<Rightarrow> bool" where
  "isSpace c = (c = CHR '' '' \<or> c = CHR 0x09 \<or> c = CHR 0x0D \<or> c = CHR 0x0A)"

definition skip_ws :: "string \<Rightarrow> string" where
  "skip_ws cs = dropWhile isSpace cs"

definition in_range :: "nat \<Rightarrow> nat \<Rightarrow> char \<Rightarrow> bool" where
  "in_range lo hi c = (lo \<le> of_char c \<and> of_char c \<le> hi)"

definition isDigit :: "char \<Rightarrow> bool" where
  "isDigit c = in_range 0x30 0x39 c"

fun expect :: "string \<Rightarrow> string \<Rightarrow> unit scan" where
  "expect [] cs = Done () cs"
| "expect (l # ls) [] = NeedMore"
| "expect (l # ls) (c # cs) = (if c = l then expect ls cs else Invalid)"

definition scan_exp :: "string \<Rightarrow> string \<Rightarrow> string scan" where
  "scan_exp acc cs =
     (case cs of
        [] \<Rightarrow> NeedMore
      | c # r \<Rightarrow>
          if c = CHR ''e'' \<or> c = CHR ''E'' then
            (let sg = (case r of [] \<Rightarrow> [] | s # _ \<Rightarrow> if s = CHR ''+'' \<or> s = CHR ''-'' then [s] else []);
                 r1 = drop (length sg) r;
                 ds = takeWhile isDigit r1;
                 r2 = dropWhile isDigit r1
             in if r2 = [] then NeedMore
                else if ds = [] then Invalid
                else Done (acc @ [c] @ sg @ ds) r2)
          else Done acc cs)"

definition scan_frac :: "string \<Rightarrow> string \<Rightarrow> string scan" where
  "scan_frac acc cs =
     (case cs of
        [] \<Rightarrow> NeedMore
      | c # r \<Rightarrow>
          if c = CHR ''.'' then
            (let ds = takeWhile isDigit r; r2 = dropWhile isDigit r
             in if r2 = [] then NeedMore
                else if ds = [] then Invalid
                else scan_exp (acc @ [c] @ ds) r2)
          else scan_exp acc cs)"

definition scan_number :: "string \<Rightarrow> string scan" where
  "scan_number cs =
     (let sg = (case cs of [] \<Rightarrow> [] | s # _ \<Rightarrow> if s = CHR ''-'' then [s] else []);
          r0 = drop (length sg) cs
      in case r0 of
           [] \<Rightarrow> NeedMore
         | c # r1 \<Rightarrow>
             if c = CHR ''0'' then scan_frac (sg @ [c]) r1
             else if in_range 0x31 0x39 c then
               scan_frac (sg @ [c] @ takeWhile isDigit r1) (dropWhile isDigit r1)
             else Invalid)"


definition dquote :: char where "dquote = CHR 0x22"
definition backslash :: char where "backslash = CHR 0x5C"

definition hexval :: "char \<Rightarrow> nat option" where
  "hexval c =
     (if in_range 0x30 0x39 c then Some (of_char c - 0x30)
      else if in_range 0x61 0x66 c then Some (of_char c - 0x57)
      else if in_range 0x41 0x46 c then Some (of_char c - 0x37)
      else None)"

definition getu4 :: "string \<Rightarrow> nat option" where
  "getu4 s =
     (case s of
        b # u # h1 # h2 # h3 # h4 # _ \<Rightarrow>
          if b = backslash \<and> u = CHR ''u'' then
            (case (hexval h1, hexval h2, hexval h3, hexval h4) of
               (Some x1, Some x2, Some x3, Some x4) \<Rightarrow> Some (((x1 * 16 + x2) * 16 + x3) * 16 + x4)
             | _ \<Rightarrow> None)
          else None
      | _ \<Rightarrow> None)"

definition RuneError :: string where
  "RuneError = [CHR 0xEF, CHR 0xBF, CHR 0xBD]"

definition utf8_EncodeRune :: "nat \<Rightarrow> string" where
  "utf8_EncodeRune r =
     (if r < 0x80 then [char_of r]
      else if r < 0x800 then [char_of (0xC0 + r div 64), char_of (0x80 + r mod 64)]
      else if (0xD800 \<le> r \<and> r < 0xE000) \<or> 0x10FFFF < r then RuneError
      else if r < 0x10000 then
        [char_of (0xE0 + r div 4096), char_of (0x80 + (r div 64) mod 64), char_of (0x80 + r mod 64)]
      else
        [char_of (0xF0 + r div 262144), char_of (0x80 + (r div 4096) mod 64),
         char_of (0x80 + (r div 64) mod 64), char_of (0x80 + r mod 64)])"

definition lead_info :: "char \<Rightarrow> (nat \<times> nat \<times> nat) option" where
  "lead_info a =
     (if in_range 0xC2 0xDF a then Some (2, 0x80, 0xBF)
      else if a = CHR 0xE0 then Some (3, 0xA0, 0xBF)
      else if a = CHR 0xED then Some (3, 0x80, 0x9F)
      else if in_range 0xE1 0xEF a then Some (3, 0x80, 0xBF)
      else if a = CHR 0xF0 then Some (4, 0x90, 0xBF)
      else if in_range 0xF1 0xF3 a then Some (4, 0x80, 0xBF)
      else if a = CHR 0xF4 then Some (4, 0x80, 0x8F)
      else None)"

definition rune_size :: "string \<Rightarrow> nat" where
  "rune_size cs =
     (case cs of
        [] \<Rightarrow> 0
      | a # r \<Rightarrow>
          (case lead_info a of
             None \<Rightarrow> 0
           | Some (n, lo, hi) \<Rightarrow>
               (case r of
                  [] \<Rightarrow> 0
                | b # r' \<Rightarrow>
                    if n - 2 \<le> length r' \<and> in_range lo hi b \<and>
                       list_all (in_range 0x80 0xBF) (take (n - 2) r')
                    then n else 0)))"

definition simple_escape :: "char \<Rightarrow> char option" where
  "simple_escape e =
     (if e = dquote \<or> e = backslash \<or> e = CHR ''/'' then Some e
      else if e = CHR ''b'' then Some (CHR 0x08)
      else if e = CHR ''f'' then Some (CHR 0x0C)
      else if e = CHR ''n'' then Some (CHR 0x0A)
      else if e = CHR ''r'' then Some (CHR 0x0D)
      else if e = CHR ''t'' then Some (CHR 0x09)
      else None)"

function scan_string :: "string \<Rightarrow> string \<Rightarrow> string scan" where
  "scan_string acc cs =
     (case cs of
        [] \<Rightarrow> NeedMore
      | c # r \<Rightarrow>
          if c = dquote then Done acc r
          else if c = backslash then
            (case r of
               [] \<Rightarrow> NeedMore
             | e # r1 \<Rightarrow>
                 if e = CHR ''u'' then
                   (if length r1 < 4 then
                      (if list_all (\<lambda>h. hexval h \<noteq> None) r1 then NeedMore else Invalid)
                    else
                      (case getu4 cs of
                         None \<Rightarrow> Invalid
                       | Some rr \<Rightarrow>
                           if 0xD800 \<le> rr \<and> rr < 0xE000 then
                             (case getu4 (drop 6 cs) of
                                None \<Rightarrow> scan_string (acc @ RuneError) (drop 6 cs)
                              | Some rr1 \<Rightarrow>
                                  if rr < 0xDC00 \<and> 0xDC00 \<le> rr1 \<and> rr1 < 0xE000 then
                                    scan_string
                                      (acc @ utf8_EncodeRune
                                         ((rr - 0xD800) * 1024 + (rr1 - 0xDC00) + 0x10000))
                                      (drop 12 cs)
                                  else scan_string (acc @ RuneError) (drop 6 cs))
                           else scan_string (acc @ utf8_EncodeRune rr) (drop 6 cs)))
                 else
                   (case simple_escape e of
                      None \<Rightarrow> Invalid
                    | Some ch \<Rightarrow> scan_string (acc @ [ch]) r1))
          else if (of_char c :: nat) < 0x20 then Invalid
          else if (of_char c :: nat) < 0x80 then scan_string (acc @ [c]) r
          else if rune_size cs = 0 then scan_string (acc @ RuneError) r
          else scan_string (acc @ take (rune_size cs) cs) (drop (rune_size cs) cs))"
  by pat_completeness auto
termination
  by (relation "measure (\<lambda>(acc, cs). length cs)") auto

definition maxNestingDepth :: nat where
  "maxNestingDepth = 10000"

fun parse_value :: "nat \<Rightarrow> nat \<Rightarrow> string \<Rightarrow> json scan"
  and parse_elems :: "nat \<Rightarrow> nat \<Rightarrow> json list \<Rightarrow> string \<Rightarrow> json scan"
  and parse_members :: "nat \<Rightarrow> nat \<Rightarrow> (string \<times> json) list \<Rightarrow> string \<Rightarrow> json scan" where
  "parse_value 0 d cs = Invalid"
| "parse_value (Suc n) d cs =
     (case skip_ws cs of
        [] \<Rightarrow> NeedMore
      | c # r \<Rightarrow>
          if c = CHR ''{'' then
            (if maxNestingDepth < Suc d then Invalid
             else case skip_ws r of
                    [] \<Rightarrow> NeedMore
                  | c' # r' \<Rightarrow>
                      if c' = CHR ''}'' then Done (JObject []) r'
                      else parse_members n (Suc d) [] (c' # r'))
          else if c = CHR ''['' then
            (if maxNestingDepth < Suc d then Invalid
             else case skip_ws r of
                    [] \<Rightarrow> NeedMore
                  | c' # r' \<Rightarrow>
                      if c' = CHR '']'' then Done (JArray []) r'
                      else parse_elems n (Suc d) [] (c' # r'))
          else if c = dquote then
            (case scan_string [] r of
               Done s r' \<Rightarrow> Done (JString s) r'
             | NeedMore \<Rightarrow> NeedMore
             | Invalid \<Rightarrow> Invalid)
          else if c = CHR ''-'' \<or> isDigit c then
            (case scan_number (c # r) of
               Done s r' \<Rightarrow> Done (JNumber s) r'
             | NeedMore \<Rightarrow> NeedMore
             | Invalid \<Rightarrow> Invalid)
          else if c = CHR ''t'' then
            (case expect ''rue'' r of
               Done u r' \<Rightarrow> Done (JBool True) r'
             | NeedMore \<Rightarrow> NeedMore
             | Invalid \<Rightarrow> Invalid)
          else if c = CHR ''f'' then
            (case expect ''alse'' r of
               Done u r' \<Rightarrow> Done (JBool False) r'
             | NeedMore \<Rightarrow> NeedMore
             | Invalid \<Rightarrow> Invalid)
          else if c = CHR ''n'' then
            (case expect ''ull'' r of
               Done u r' \<Rightarrow> Done JNull r'
             | NeedMore \<Rightarrow> NeedMore
             | Invalid \<Rightarrow> Invalid)
          else Invalid)"
| "parse_elems 0 d acc cs = Invalid"
| "parse_elems (Suc n) d acc cs =
     (case parse_value n d cs of
        Done v r \<Rightarrow>
          (case skip_ws r of
             [] \<Rightarrow> NeedMore
           | c # r' \<Rightarrow>
               if c = CHR '','' then parse_elems n d (acc @ [v]) r'
               else if c = CHR '']'' then Done (JArray (acc @ [v])) r'
               else Invalid)
      | NeedMore \<Rightarrow> NeedMore
      | Invalid \<Rightarrow> Invalid)"
| "parse_members 0 d acc cs = Invalid"
| "parse_members (Suc n) d acc cs =
     (case skip_ws cs of
        [] \<Rightarrow> NeedMore
      | c # r \<Rightarrow>
          if c \<noteq> dquote then Invalid
          else
            (case scan_string [] r of
               Done k r1 \<Rightarrow>
                 (case skip_ws r1 of
                    [] \<Rightarrow> NeedMore
                  | c1 # r2 \<Rightarrow>
                      if c1 \<noteq> CHR '':'' then Invalid
                      else
                        (case parse_value n d r2 of
                           Done v r3 \<Rightarrow>
                             (case skip_ws r3 of
                                [] \<Rightarrow> NeedMore
                              | c3 # r4 \<Rightarrow>
                                  if c3 = CHR '','' then parse_members n d (acc @ [(k, v)]) r4
                                  else if c3 = CHR ''}'' then Done (JObject (acc @ [(k, v)])) r4
                                  else Invalid)
                         | NeedMore \<Rightarrow> NeedMore
                         | Invalid \<Rightarrow> Invalid))
             | NeedMore \<Rightarrow> NeedMore
             | Invalid \<Rightarrow> Invalid))"

definition scan_value :: "string \<Rightarrow> json scan" where
  "scan_value cs = parse_value (2 * length cs + 2) 0 cs"

text \<open>A string between double quotes, for writing JSON texts.\<close>

definition quoted :: "string \<Rightarrow> string" where
  "quoted s = [dquote] @ s @ [dquote]"

section \<open>Errors and decoding into structs\<close>

text \<open>
  The struct \<open>Error\<close> of the package, and the values of Go's interface \<open>error\<close>
  that this file produces: \<open>errors.New\<close> and \<open>fmt.Errorf\<close> strings, the package's
  \<open>Error\<close>, the errors of \<open>encoding/json\<close> (a syntax error, a value of the wrong
  JSON kind for a field, an unknown field in strict mode), \<open>io.EOF\<close> and
  \<open>io.ErrUnexpectedEOF\<close>, and errors of a reader or a transport, which are opaque.
\<close>

record Error =
  Message :: string
  MessageDetail :: string

datatype goerror =
    errorString string
  | ApiError Error
  | SyntaxError
  | UnmarshalTypeError string string
  | UnknownField string
  | EOF
  | ErrUnexpectedEOF
  | OtherError string

text \<open>\<open>func (e Error) Error() string\<close>: \<open>fmt.Sprintf("%s: %s", ...)\<close> on two strings.\<close>

definition Error_Error :: "Error \<Rightarrow> string" where
  "Error_Error e = Message e @ '': '' @ MessageDetail e"

text \<open>
  The method \<open>Error()\<close> of an \<open>error\<close> value. The wording of the errors that
  come from the standard library or the transport is a parameter \<open>libmsg\<close>.
\<close>

definition goerror_Error :: "(goerror \<Rightarrow> string) \<Rightarrow> goerror \<Rightarrow> string" where
  "goerror_Error libmsg e =
     (case e of errorString s \<Rightarrow> s | ApiError a \<Rightarrow> Error_Error a | _ \<Rightarrow> libmsg e)"

text \<open>
  Decoding a JSON value into a struct. A struct type is described by its fields: the JSON
  name of each (ASCII, as the names of \<open>Error\<close> are) and how a JSON value is stored
  into it, which returns the error to save, if any, and the updated struct. A key selects
  the field whose name it equals or else the first field whose name it equals under case
  folding; the decoder keeps the first error it saves and goes on; in strict mode a key
  that selects no field saves an error, otherwise the key and its value are skipped.
\<close>

type_synonym 'd field = "string \<times> (json \<Rightarrow> 'd \<Rightarrow> goerror option \<times> 'd)"

definition json_kind :: "json \<Rightarrow> string" where
  "json_kind j =
     (case j of JNull \<Rightarrow> ''null'' | JBool _ \<Rightarrow> ''bool'' | JNumber _ \<Rightarrow> ''number''
      | JString _ \<Rightarrow> ''string'' | JArray _ \<Rightarrow> ''array'' | JObject _ \<Rightarrow> ''object'')"

text \<open>
  \<open>foldName\<close>: ASCII letters to upper case; the two runes beyond ASCII that fold to
  an ASCII letter are U+017F (to S) and U+212A (to K).
\<close>

fun foldName :: "string \<Rightarrow> string" where
  "foldName [] = []"
| "foldName (c # cs) =
     (if in_range 0x61 0x7A c then char_of (of_char c - (0x20::nat)) # foldName cs
      else if c = CHR 0xC5 \<and> take 1 cs = [CHR 0xBF] then CHR ''S'' # foldName (drop 1 cs)
      else if c = CHR 0xE2 \<and> take 2 cs = [CHR 0x84, CHR 0xAA] then CHR ''K'' # foldName (drop 2 cs)
      else c # foldName cs)"

definition find_field :: "'d field list \<Rightarrow> string \<Rightarrow> 'd field option" where
  "find_field flds key =
     (case find (\<lambda>f. fst f = key) flds of
        Some f \<Rightarrow> Some f
      | None \<Rightarrow> find (\<lambda>f. foldName (fst f) = foldName key) flds)"

definition saveError :: "goerror option \<Rightarrow> goerror option \<Rightarrow> goerror option" where
  "saveError saved e = (case saved of None \<Rightarrow> e | Some s \<Rightarrow> Some s)"

fun decode_members ::
  "bool \<Rightarrow> 'd field list \<Rightarrow> (string \<times> json) list \<Rightarrow> goerror option \<times> 'd \<Rightarrow> goerror option \<times> 'd" where
  "decode_members strict flds [] (saved, d) = (saved, d)"
| "decode_members strict flds ((k, v) # kvs) (saved, d) =
     (case find_field flds k of
        None \<Rightarrow>
          decode_members strict flds kvs
            (if strict then saveError saved (Some (UnknownField k)) else saved, d)
      | Some f \<Rightarrow>
          (case snd f v d of
             (e, d') \<Rightarrow> decode_members strict flds kvs (saveError saved e, d')))"

definition decode_struct ::
  "bool \<Rightarrow> 'd field list \<Rightarrow> json \<Rightarrow> 'd \<Rightarrow> goerror option \<times> 'd" where
  "decode_struct strict flds j d =
     (case j of
        JObject kvs \<Rightarrow> decode_members strict flds kvs (None, d)
      | JNull \<Rightarrow> (None, d)
      | _ \<Rightarrow> (Some (UnmarshalTypeError (json_kind j) []), d))"

text \<open>A field of Go type \<open>string\<close>: a JSON string is stored, \<open>null\<close> is skipped.\<close>

definition string_field :: "string \<Rightarrow> (string \<Rightarrow> 'd \<Rightarrow> 'd) \<Rightarrow> 'd field" where
  "string_field name upd =
     (name, \<lambda>j d. case j of
                     JString s \<Rightarrow> (None, upd s d)
                   | JNull \<Rightarrow> (None, d)
                   | _ \<Rightarrow> (Some (UnmarshalTypeError (json_kind j) name), d))"

definition Error_fields :: "Error field list" where
  "Error_fields =
     [string_field ''message'' (\<lambda>s e. e\<lparr>Message := s\<rparr>),
      string_field ''MessageDetail'' (\<lambda>s e. e\<lparr>MessageDetail := s\<rparr>)]"

text \<open>
  \<open>json.Unmarshal(data, v)\<close> first checks that the whole of \<open>data\<close> is one JSON
  value, with white space around it only.
\<close>

definition json_checkValid :: "bytes \<Rightarrow> json option" where
  "json_checkValid data =
     (case scan_value (data @ '' '') of
        Done v rest \<Rightarrow> if skip_ws rest = [] then Some v else None
      | _ \<Rightarrow> None)"

section \<open>Responses and \<open>CheckResponse\<close>\<close>

text \<open>
  A response body is a reader: the bytes it still delivers, and the error that ends the
  reading (\<open>None\<close> for a clean end of input).
\<close>

record reader =
  pending :: bytes
  failure :: "goerror option"

record Response =
  StatusCode :: int
  Status :: string
  Header :: "string \<rightharpoonup> string list"
  Body :: reader

record ErrorResponse =
  Response :: Response
  Errors :: "goerror list"

text \<open>A reader that ends with \<open>io.EOF\<close> has ended cleanly.\<close>

definition read_error :: "reader \<Rightarrow> goerror option" where
  "read_error b = (case failure b of Some EOF \<Rightarrow> None | e \<Rightarrow> e)"

definition ioutil_ReadAll :: "reader \<Rightarrow> bytes \<times> goerror option" where
  "ioutil_ReadAll b = (pending b, read_error b)"

definition NopCloser :: "bytes \<Rightarrow> reader" where
  "NopCloser data = \<lparr>pending = data, failure = None\<rparr>"

text \<open>\<open>Header.Get\<close> for a key that is already in canonical form.\<close>

definition Header_of :: "(string \<times> string list) list \<Rightarrow> (string \<rightharpoonup> string list)" where
  "Header_of kvs = map_of kvs"

definition Header_Get :: "(string \<rightharpoonup> string list) \<Rightarrow> string \<Rightarrow> string" where
  "Header_Get h key = (case h key of None \<Rightarrow> [] | Some [] \<Rightarrow> [] | Some (v # _) \<Rightarrow> v)"

text \<open>\<open>strings.Split\<close> with a separator of one byte; the result is never empty.\<close>

fun strings_Split :: "string \<Rightarrow> char \<Rightarrow> string list" where
  "strings_Split [] sep = [[]]"
| "strings_Split (c # cs) sep =
     (if c = sep then [] # strings_Split cs sep
      else case strings_Split cs sep of
             [] \<Rightarrow> [[c]]
           | p # ps \<Rightarrow> (c # p) # ps)"

text \<open>The Content-Type of a response without its parameters.\<close>

definition contentTypeOf :: "Response \<Rightarrow> string" where
  "contentTypeOf r = takeWhile (\<lambda>c. c \<noteq> CHR '';'') (Header_Get (Header r) ''Content-Type'')"

definition checkContentType :: "Response \<Rightarrow> goerror option" where
  "checkContentType response =
     (let header = Header_Get (Header response) ''Content-Type'';
          contentType = hd (strings_Split header (CHR '';''))
      in if contentType \<noteq> mediaType then
           Some (errorString (''Expected Content-Type '' @ [dquote] @ mediaType @ [dquote]
                   @ '', got '' @ [dquote] @ contentType @ [dquote]))
         else None)"

text \<open>
  \<open>func (r *ErrorResponse) UnmarshalJSON(data []byte) error\<close>. The decoder hands over
  the bytes of a value that it has already checked; they are represented by the value.
\<close>

definition zeroError :: Error where
  "zeroError = \<lparr>Message = [], MessageDetail = []\<rparr>"

definition ErrorResponse_UnmarshalJSON :: "json \<Rightarrow> ErrorResponse \<Rightarrow> goerror option \<times> ErrorResponse" where
  "ErrorResponse_UnmarshalJSON data r =
     (case decode_struct False Error_fields data zeroError of
        (Some err, e) \<Rightarrow> (Some err, r)
      | (None, e) \<Rightarrow> (None, r\<lparr>Errors := Errors r @ [ApiError e]\<rparr>))"

text \<open>
  \<open>json.Unmarshal(data, errorResponse)\<close>: \<open>*ErrorResponse\<close> implements
  \<open>json.Unmarshaler\<close>, so every valid input is passed to \<open>UnmarshalJSON\<close>.
\<close>

definition json_Unmarshal_ErrorResponse :: "bytes \<Rightarrow> ErrorResponse \<Rightarrow> goerror option \<times> ErrorResponse" where
  "json_Unmarshal_ErrorResponse data r =
     (case json_checkValid data of
        None \<Rightarrow> (Some SyntaxError, r)
      | Some v \<Rightarrow> ErrorResponse_UnmarshalJSON v r)"

text \<open>
  \<open>CheckResponse\<close> returns the error (\<open>None\<close> for \<open>nil\<close>) and the response as it
  leaves it: the body is replaced by a reader over the bytes that were read. The field
  \<open>Response\<close> of the error is a pointer to that same response.
\<close>

definition CheckResponse :: "Response \<Rightarrow> ErrorResponse option \<times> Response" where
  "CheckResponse r =
     (if 200 \<le> StatusCode r \<and> StatusCode r \<le> 299 then (None, r)
      else
        (case checkContentType r of
           Some err \<Rightarrow> (Some \<lparr>Response = r, Errors = [] @ [errorString (Status r)]\<rparr>, r)
         | None \<Rightarrow>
             (case ioutil_ReadAll (Body r) of
                (data, err) \<Rightarrow>
                  (let r' = r\<lparr>Body := NopCloser data\<rparr>;
                       errorResponse = \<lparr>Response = r', Errors = []\<rparr>
                   in if err \<noteq> None then (Some errorResponse, r')
                      else if length data = 0 then (Some errorResponse, r')
                      else
                        (case json_Unmarshal_ErrorResponse data errorResponse of
                           (Some e, er) \<Rightarrow> (Some (er\<lparr>Errors := Errors er @ [e]\<rparr>), r')
                         | (None, er) \<Rightarrow> (Some er, r'))))))"

text \<open>
  \<open>func (r ErrorResponse) Error() string\<close>. With no entries the method reaches
  \<open>r.Errors[0]\<close>, which panics: the result is the panic or the string.
\<close>

datatype panic = IndexOutOfRange nat nat

fun strings_Join :: "string list \<Rightarrow> string \<Rightarrow> string" where
  "strings_Join [] sep = []"
| "strings_Join [s] sep = s"
| "strings_Join (s # t # ss) sep = s @ sep @ strings_Join (t # ss) sep"

definition index :: "'a list \<Rightarrow> nat \<Rightarrow> panic + 'a" where
  "index xs i = (if i < length xs then Inr (xs ! i) else Inl (IndexOutOfRange i (length xs)))"

definition ErrorResponse_Error :: "(goerror \<Rightarrow> string) \<Rightarrow> ErrorResponse \<Rightarrow> panic + string" where
  "ErrorResponse_Error libmsg r =
     (if length (Errors r) > 0 then
        Inr (strings_Join (map (goerror_Error libmsg) (Errors r)) '', '')
      else
        (case index (Errors r) 0 of
           Inl p \<Rightarrow> Inl p
         | Inr e \<Rightarrow> Inr (goerror_Error libmsg e)))"

section \<open>\<open>Do\<close>\<close>

text \<open>
  The request that \<open>NewRequest\<close> builds: method, URL, the query parameters as decoded
  pairs in their order, the headers that were added, the body and the optional context.
\<close>

record 'ctx Request =
  Method :: string
  ReqURL :: URL
  Query :: "(string \<times> string) list"
  ReqHeader :: "(string \<times> string) list"
  ReqBody :: bytes
  Ctx :: "'ctx option"

text \<open>
  \<open>json.Decoder.Decode\<close> reads one value from the front of the body. The end of a
  number, a literal or a string at top level is only seen at the next byte, so at the end
  of the input the scanner is fed a space; an input that ends before a value is complete
  gives the reader's error, \<open>io.EOF\<close> when there was nothing but white space, and
  \<open>io.ErrUnexpectedEOF\<close> otherwise.
\<close>

definition is_composite :: "json \<Rightarrow> bool" where
  "is_composite j = (case j of JObject _ \<Rightarrow> True | JArray _ \<Rightarrow> True | _ \<Rightarrow> False)"

definition scan_top :: "bytes \<Rightarrow> json scan" where
  "scan_top cs =
     (case scan_value cs of
        Done v rest \<Rightarrow> if is_composite v \<or> rest \<noteq> [] then Done v rest else NeedMore
      | NeedMore \<Rightarrow> NeedMore
      | Invalid \<Rightarrow> Invalid)"

definition Decoder_readValue :: "reader \<Rightarrow> goerror + json" where
  "Decoder_readValue b =
     (case scan_top (pending b) of
        Done v rest \<Rightarrow> Inr v
      | Invalid \<Rightarrow> Inl SyntaxError
      | NeedMore \<Rightarrow>
          (case read_error b of
             Some e \<Rightarrow> Inl e
           | None \<Rightarrow>
               (case scan_top (pending b @ '' '') of
                  Done v rest \<Rightarrow> Inr v
                | _ \<Rightarrow> if skip_ws (pending b) = [] then Inl EOF else Inl ErrUnexpectedEOF)))"

text \<open>
  The destination \<open>responseBody\<close> is a pointer to a struct, given by the fields of its
  type and its value; \<open>None\<close> is the nil interface.
\<close>

definition Decoder_Decode ::
  "bool \<Rightarrow> 'd field list \<Rightarrow> reader \<Rightarrow> 'd \<Rightarrow> goerror option \<times> 'd" where
  "Decoder_Decode disallowUnknown flds b d =
     (case Decoder_readValue b of
        Inl e \<Rightarrow> (Some e, d)
      | Inr v \<Rightarrow> decode_struct disallowUnknown flds v d)"

text \<open>
  \<open>httputil.DumpResponse(httpResp, true)\<close> reads the body and puts a copy back; when
  the read fails, the drained body stays. What is logged is not modelled.
\<close>

definition DumpResponse :: "Response \<Rightarrow> Response" where
  "DumpResponse r =
     (case read_error (Body r) of
        None \<Rightarrow> r\<lparr>Body := NopCloser (pending (Body r))\<rparr>
      | Some e \<Rightarrow> r\<lparr>Body := (Body r)\<lparr>pending := []\<rparr>\<rparr>)"

text \<open>
  The error that \<open>Do\<close> returns is the transport's or an \<open>*ErrorResponse\<close>.
  \<open>Do\<close> gets the transport (\<open>c.http.Do\<close>) and the completion callback, which may
  change the response it is handed, as arguments. The results are the returned pair and
  the destination as \<open>Do\<close> leaves it. The deferred \<open>Close\<close> assigns to a local
  variable only, so it does not change what is returned. After decoding, the body of the
  returned response has been read by the decoder.
\<close>

datatype reterror = Plain goerror | Resp ErrorResponse

definition Do ::
  "Client \<Rightarrow> ('ctx Request \<Rightarrow> goerror + Response) \<Rightarrow>
   ('ctx Request \<Rightarrow> Response \<Rightarrow> Response) option \<Rightarrow> 'd field list \<Rightarrow>
   'ctx Request \<Rightarrow> 'd option \<Rightarrow> (Response option \<times> reterror option) \<times> 'd option" where
  "Do c transport onRequestCompleted flds req responseBody =
     (case transport req of
        Inl err \<Rightarrow> ((None, Some (Plain err)), responseBody)
      | Inr httpResp \<Rightarrow>
          (let r1 = (case onRequestCompleted of None \<Rightarrow> httpResp | Some f \<Rightarrow> f req httpResp);
               r2 = (if c_debug c = True then DumpResponse r1 else r1)
           in case CheckResponse r2 of
                (Some e, r3) \<Rightarrow> ((Some r3, Some (Resp e)), responseBody)
              | (None, r3) \<Rightarrow>
                  (case responseBody of
                     None \<Rightarrow> ((Some r3, None), None)
                   | Some d \<Rightarrow>
                       (case Decoder_Decode (c_disallowUnknownFields c) flds (Body r3) d of
                          (err, d') \<Rightarrow>
                            (let r4 = r3\<lparr>Body := (Body r3)\<lparr>pending := []\<rparr>\<rparr>
                             in case err of
                                  None \<Rightarrow> ((Some r4, None), Some d')
                                | Some EOF \<Rightarrow> ((Some r4, None), Some d')
                                | Some e \<Rightarrow>
                                    ((Some r4, Some (Resp \<lparr>Response = r4, Errors = [] @ [e]\<rparr>)),
                                     Some d'))))))"

section \<open>Theorems\<close>

text \<open>
  C10: whatever string was passed to SetMediaType, SetCharset or SetUserAgent before, the
  getters MediaType, Charset and UserAgent return the package constants
  "application/json", "utf-8" and "go-merit-aktiva/0.0.1"; so a setter followed by its
  getter does not give the value back (shown at the string "text/xml").
\<close>

theorem getters_return_package_constants:
  "MediaType (SetMediaType s c) = ''application/json'' \<and>
   Charset (SetCharset s c) = ''utf-8'' \<and>
   UserAgent (SetUserAgent s c) = ''go-merit-aktiva/0.0.1'' \<and>
   MediaType (SetUserAgent s3 (SetCharset s2 (SetMediaType s1 c))) = ''application/json'' \<and>
   Charset (SetUserAgent s3 (SetCharset s2 (SetMediaType s1 c))) = ''utf-8'' \<and>
   UserAgent (SetUserAgent s3 (SetCharset s2 (SetMediaType s1 c))) = ''go-merit-aktiva/0.0.1'' \<and>
   MediaType (SetMediaType ''text/xml'' c) \<noteq> ''text/xml'' \<and>
   Charset (SetCharset ''text/xml'' c) \<noteq> ''text/xml'' \<and>
   UserAgent (SetUserAgent ''text/xml'' c) \<noteq> ''text/xml''"
  by (simp add: MediaType_def Charset_def UserAgent_def mediaType_def charset_def
      userAgent_def libraryVersion_def)

subsection \<open>Content type and status\<close>

lemma strings_Split_nonempty: "strings_Split s sep \<noteq> []"
  by (induction s) (auto split: list.splits)

lemma hd_strings_Split: "hd (strings_Split s sep) = takeWhile (\<lambda>c. c \<noteq> sep) s"
  by (induction s) (auto split: list.splits simp: strings_Split_nonempty)


lemma checkContentType_None: "(checkContentType r = None) = (contentTypeOf r = mediaType)"
  by (simp add: checkContentType_def contentTypeOf_def hd_strings_Split Let_def)

lemma Unmarshal_ErrorResponse_cases:
  "(\<exists>e. json_Unmarshal_ErrorResponse data r = (Some e, r)) \<or>
   (\<exists>a. json_Unmarshal_ErrorResponse data r = (None, r\<lparr>Errors := Errors r @ [ApiError a]\<rparr>))"
  by (auto simp: json_Unmarshal_ErrorResponse_def ErrorResponse_UnmarshalJSON_def
      split: option.splits prod.splits)

lemma CheckResponse_2xx:
  "200 \<le> StatusCode r \<Longrightarrow> StatusCode r \<le> 299 \<Longrightarrow> CheckResponse r = (None, r)"
  by (simp add: CheckResponse_def)

lemma CheckResponse_mismatch:
  assumes "\<not> (200 \<le> StatusCode r \<and> StatusCode r \<le> 299)" and "contentTypeOf r \<noteq> mediaType"
  shows "CheckResponse r = (Some \<lparr>Response = r, Errors = [errorString (Status r)]\<rparr>, r)"
proof -
  from assms(2) obtain err where "checkContentType r = Some err"
    using checkContentType_None [of r] by (cases "checkContentType r") auto
  then show ?thesis
    unfolding CheckResponse_def
    by (subst if_not_P [OF assms(1)]) simp
qed

lemma CheckResponse_match:
  assumes "\<not> (200 \<le> StatusCode r \<and> StatusCode r \<le> 299)" and "contentTypeOf r = mediaType"
  shows "CheckResponse r =
     (let r' = r\<lparr>Body := NopCloser (pending (Body r))\<rparr>;
          errorResponse = \<lparr>Response = r', Errors = []\<rparr>
      in if read_error (Body r) \<noteq> None then (Some errorResponse, r')
         else if pending (Body r) = [] then (Some errorResponse, r')
         else (case json_Unmarshal_ErrorResponse (pending (Body r)) errorResponse of
                 (Some e, er) \<Rightarrow> (Some (er\<lparr>Errors := Errors er @ [e]\<rparr>), r')
               | (None, er) \<Rightarrow> (Some er, r')))"
proof -
  from assms(2) have "checkContentType r = None" by (simp add: checkContentType_None)
  then show ?thesis
    unfolding CheckResponse_def
    by (subst if_not_P [OF assms(1)]) (simp add: ioutil_ReadAll_def Let_def)
qed

text \<open>
  C4: for a response whose status code is outside 200..299 and whose Content-Type, without
  the parameters after ";", is not "application/json", CheckResponse returns an
  ErrorResponse with exactly one entry, errors.New of the status line, whatever the body
  is; the body is handed back unread, so no JSON decoding of it takes place.
\<close>

theorem CheckResponse_unexpected_content_type:
  assumes "\<not> (200 \<le> StatusCode r \<and> StatusCode r \<le> 299)"
    and "takeWhile (\<lambda>c. c \<noteq> CHR '';'') (Header_Get (Header r) ''Content-Type'') \<noteq> ''application/json''"
  shows "CheckResponse (r\<lparr>Body := b\<rparr>) =
           (Some \<lparr>Response = r\<lparr>Body := b\<rparr>, Errors = [errorString (Status r)]\<rparr>, r\<lparr>Body := b\<rparr>)"
  using assms CheckResponse_mismatch [of "r\<lparr>Body := b\<rparr>"]
  by (simp add: contentTypeOf_def mediaType_def)

theorem CheckResponse_unexpected_content_type_witness:
  "CheckResponse \<lparr>StatusCode = 500, Status = ''500 Internal Server Error'',
       Header = Header_of [(''Content-Type'', [''text/html; charset=utf-8''])],
       Body = \<lparr>pending = ''<html>oops</html>'', failure = None\<rparr>\<rparr>
   = (Some \<lparr>Response = \<lparr>StatusCode = 500, Status = ''500 Internal Server Error'',
                 Header = Header_of [(''Content-Type'', [''text/html; charset=utf-8''])],
                 Body = \<lparr>pending = ''<html>oops</html>'', failure = None\<rparr>\<rparr>,
            Errors = [errorString ''500 Internal Server Error'']\<rparr>,
      \<lparr>StatusCode = 500, Status = ''500 Internal Server Error'',
       Header = Header_of [(''Content-Type'', [''text/html; charset=utf-8''])],
       Body = \<lparr>pending = ''<html>oops</html>'', failure = None\<rparr>\<rparr>)"
  using CheckResponse_unexpected_content_type
    [of "\<lparr>StatusCode = 500, Status = ''500 Internal Server Error'',
       Header = Header_of [(''Content-Type'', [''text/html; charset=utf-8''])],
       Body = \<lparr>pending = [], failure = None\<rparr>\<rparr>" "\<lparr>pending = ''<html>oops</html>'', failure = None\<rparr>"]
  by (simp add: Header_of_def Header_Get_def)

text \<open>
  C5 as stated fails: status 500 with Content-Type "application/json" and an empty body
  gives an error value with no entry.
\<close>

theorem CheckResponse_empty_body_counterexample:
  "\<not> (200 \<le> (500::int) \<and> (500::int) \<le> 299) \<and>
   map_option Errors (fst (CheckResponse \<lparr>StatusCode = 500, Status = ''500 Internal Server Error'',
       Header = Header_of [(''Content-Type'', [''application/json''])],
       Body = \<lparr>pending = [], failure = None\<rparr>\<rparr>)) = Some []"
  by (simp add: CheckResponse_def checkContentType_def Header_of_def Header_Get_def
      mediaType_def ioutil_ReadAll_def read_error_def NopCloser_def Let_def)

text \<open>
  C5, as amended: for every response with a status code outside 200..299, CheckResponse
  returns an error value; when the body is read without error, its sequence of entries
  has exactly one entry, except that it is empty when the Content-Type is
  "application/json" and the body is empty.
\<close>

theorem CheckResponse_non_2xx_error:
  assumes "\<not> (200 \<le> StatusCode r \<and> StatusCode r \<le> 299)"
  shows "\<exists>e. fst (CheckResponse r) = Some e \<and>
           (read_error (Body r) = None \<longrightarrow>
              length (Errors e) =
                (if takeWhile (\<lambda>c. c \<noteq> CHR '';'') (Header_Get (Header r) ''Content-Type'') = ''application/json''
                    \<and> pending (Body r) = [] then 0 else 1))"
proof (cases "contentTypeOf r = mediaType")
  case False
  with assms show ?thesis
    using CheckResponse_mismatch [of r] by (simp add: contentTypeOf_def mediaType_def)
next
  case True
  let ?er = "\<lparr>Response = r\<lparr>Body := NopCloser (pending (Body r))\<rparr>, Errors = []\<rparr>"
  from Unmarshal_ErrorResponse_cases [of "pending (Body r)" ?er]
  show ?thesis
    using assms True CheckResponse_match [of r]
    by (auto simp: Let_def contentTypeOf_def mediaType_def)
qed

theorem CheckResponse_non_2xx_error_witness:
  "(\<exists>e. fst (CheckResponse \<lparr>StatusCode = 500, Status = ''500 Internal Server Error'',
            Header = Header_of [(''Content-Type'', [''application/json''])],
            Body = \<lparr>pending = [], failure = None\<rparr>\<rparr>) = Some e \<and> length (Errors e) = 0) \<and>
   (\<exists>e. fst (CheckResponse \<lparr>StatusCode = 503, Status = ''503 Service Unavailable'',
            Header = Header_of [(''Content-Type'', [''application/json''])],
            Body = \<lparr>pending = ''busy'', failure = None\<rparr>\<rparr>) = Some e \<and> length (Errors e) = 1)"
  using CheckResponse_non_2xx_error [of "\<lparr>StatusCode = 500, Status = ''500 Internal Server Error'',
            Header = Header_of [(''Content-Type'', [''application/json''])],
            Body = \<lparr>pending = [], failure = None\<rparr>\<rparr>"]
    CheckResponse_non_2xx_error [of "\<lparr>StatusCode = 503, Status = ''503 Service Unavailable'',
            Header = Header_of [(''Content-Type'', [''application/json''])],
            Body = \<lparr>pending = ''busy'', failure = None\<rparr>\<rparr>"]
  by (simp add: Header_of_def Header_Get_def read_error_def)

subsection \<open>Error bodies\<close>

lemma json_checkValid_empty: "json_checkValid [] = None"
  by code_simp

lemma decode_Error_object:
  "decode_struct False Error_fields
     (JObject [(''message'', JString m), (''MessageDetail'', JString d)]) zeroError
   = (None, \<lparr>Message = m, MessageDetail = d\<rparr>)"
  by (simp add: decode_struct_def Error_fields_def string_field_def find_field_def
      saveError_def zeroError_def)

text \<open>
  C6: for a response with a status code outside 200..299 whose Content-Type is
  "application/json" and whose body, read without error, is the JSON object with the
  members "message": m and "MessageDetail": d, CheckResponse returns an ErrorResponse
  with exactly one entry, the Error with these two strings, whose Error() is
  m followed by ": " and d. The witness is status 404 with the body
  {"message":"Not found","MessageDetail":"no such id"}.
\<close>

theorem CheckResponse_error_object:
  assumes "\<not> (200 \<le> StatusCode r \<and> StatusCode r \<le> 299)"
    and "takeWhile (\<lambda>c. c \<noteq> CHR '';'') (Header_Get (Header r) ''Content-Type'') = ''application/json''"
    and "read_error (Body r) = None"
    and "json_checkValid (pending (Body r)) =
           Some (JObject [(''message'', JString m), (''MessageDetail'', JString d)])"
  shows "\<exists>e. fst (CheckResponse r) = Some e \<and>
           Errors e = [ApiError \<lparr>Message = m, MessageDetail = d\<rparr>] \<and>
           map (goerror_Error libmsg) (Errors e) = [m @ '': '' @ d] \<and>
           ErrorResponse_Error libmsg e = Inr (m @ '': '' @ d)"
proof -
  from assms(4) have ne: "pending (Body r) \<noteq> []"
    using json_checkValid_empty by auto
  from assms(2) have ct: "contentTypeOf r = mediaType"
    by (simp add: contentTypeOf_def mediaType_def)
  let ?er = "\<lparr>Response = r\<lparr>Body := NopCloser (pending (Body r))\<rparr>, Errors = []\<rparr>"
  have um: "json_Unmarshal_ErrorResponse (pending (Body r)) ?er
      = (None, ?er\<lparr>Errors := [ApiError \<lparr>Message = m, MessageDetail = d\<rparr>]\<rparr>)"
    by (simp add: json_Unmarshal_ErrorResponse_def assms(4) ErrorResponse_UnmarshalJSON_def
        decode_Error_object)
  have "fst (CheckResponse r) = Some (?er\<lparr>Errors := [ApiError \<lparr>Message = m, MessageDetail = d\<rparr>]\<rparr>)"
    using CheckResponse_match [OF assms(1) ct] ne assms(3) um by (simp add: Let_def)
  then show ?thesis
    by (simp add: goerror_Error_def Error_Error_def ErrorResponse_Error_def)
qed

theorem CheckResponse_error_object_witness:
  "\<exists>e. fst (CheckResponse \<lparr>StatusCode = 404, Status = ''404 Not Found'',
            Header = Header_of [(''Content-Type'', [''application/json; charset=utf-8''])],
            Body = \<lparr>pending = ''{'' @ quoted ''message'' @ '':'' @ quoted ''Not found'' @ '',''
                       @ quoted ''MessageDetail'' @ '':'' @ quoted ''no such id'' @ ''}'',
                     failure = None\<rparr>\<rparr>) = Some e \<and>
       map (goerror_Error (\<lambda>x. [])) (Errors e) = [''Not found: no such id'']"
proof -
  have v: "json_checkValid (''{'' @ quoted ''message'' @ '':'' @ quoted ''Not found'' @ '',''
                       @ quoted ''MessageDetail'' @ '':'' @ quoted ''no such id'' @ ''}'')
        = Some (JObject [(''message'', JString ''Not found''), (''MessageDetail'', JString ''no such id'')])"
    by code_simp
  have "\<exists>e. fst (CheckResponse \<lparr>StatusCode = 404, Status = ''404 Not Found'',
            Header = Header_of [(''Content-Type'', [''application/json; charset=utf-8''])],
            Body = \<lparr>pending = ''{'' @ quoted ''message'' @ '':'' @ quoted ''Not found'' @ '',''
                       @ quoted ''MessageDetail'' @ '':'' @ quoted ''no such id'' @ ''}'',
                     failure = None\<rparr>\<rparr>) = Some e \<and>
       Errors e = [ApiError \<lparr>Message = ''Not found'', MessageDetail = ''no such id''\<rparr>] \<and>
       map (goerror_Error (\<lambda>x. [])) (Errors e) = [''Not found'' @ '': '' @ ''no such id''] \<and>
       ErrorResponse_Error (\<lambda>x. []) e = Inr (''Not found'' @ '': '' @ ''no such id'')"
    by (rule CheckResponse_error_object)
      (insert v, simp_all add: Header_of_def Header_Get_def read_error_def)
  then show ?thesis by auto
qed

text \<open>
  C9: on an ErrorResponse with no entries, the state that CheckResponse produces for an
  empty body of a failed request, the method Error() does not return a string: it
  panics at the index 0 of a sequence of length 0.
\<close>

theorem ErrorResponse_Error_empty_panics:
  "Errors r = [] \<Longrightarrow> ErrorResponse_Error libmsg r = Inl (IndexOutOfRange 0 0)"
  by (simp add: ErrorResponse_Error_def index_def)

theorem ErrorResponse_Error_empty_panics_witness:
  "fst (CheckResponse \<lparr>StatusCode = 502, Status = ''502 Bad Gateway'',
            Header = Header_of [(''Content-Type'', [''application/json''])],
            Body = \<lparr>pending = [], failure = None\<rparr>\<rparr>)
     = Some \<lparr>Response = \<lparr>StatusCode = 502, Status = ''502 Bad Gateway'',
            Header = Header_of [(''Content-Type'', [''application/json''])],
            Body = \<lparr>pending = [], failure = None\<rparr>\<rparr>, Errors = []\<rparr> \<and>
   ErrorResponse_Error (\<lambda>x. []) \<lparr>Response = \<lparr>StatusCode = 502, Status = ''502 Bad Gateway'',
            Header = Header_of [(''Content-Type'', [''application/json''])],
            Body = \<lparr>pending = [], failure = None\<rparr>\<rparr>, Errors = []\<rparr> = Inl (IndexOutOfRange 0 0)"
  using ErrorResponse_Error_empty_panics [of "\<lparr>Response = \<lparr>StatusCode = 502, Status = ''502 Bad Gateway'',
            Header = Header_of [(''Content-Type'', [''application/json''])],
            Body = \<lparr>pending = [], failure = None\<rparr>\<rparr>, Errors = []\<rparr>" "\<lambda>x. []"]
  by (simp add: CheckResponse_def checkContentType_def Header_of_def Header_Get_def
      mediaType_def ioutil_ReadAll_def read_error_def NopCloser_def Let_def)

end
